theory Spec2Isabelle
  imports Complex_Main "HOL-Library.Word"
begin

unbundle bit_operations_syntax

section \<open>The decimal32 word and its constants (dec32.go)\<close>

text \<open>
  \<^verbatim>\<open>type Dec32 uint32\<close>. Go's \<^verbatim>\<open>int32\<close> and \<^verbatim>\<open>int8\<close> are words of the same
  width read through \<^const>\<open>sint\<close>: arithmetic wraps around, comparisons are signed.
  A conversion between a signed and an unsigned type of one width keeps the bits,
  \<^verbatim>\<open>uint32(x)\<close> of an 8-bit unsigned value is \<^const>\<open>ucast\<close> (zero extension) and
  \<^verbatim>\<open>int8(x)\<close> of a 32-bit value is \<^const>\<open>ucast\<close> as well (the low 8 bits).
\<close>

type_synonym Dec32 = "32 word"
type_synonym int32 = "32 word"
type_synonym int8 = "8 word"

definition signMask :: "32 word" where "signMask = 0x80000000"
definition combMask :: "32 word" where "combMask = 0x7c000000"
definition expMask :: "32 word" where "expMask = 0x03f00000"
definition contMask :: "32 word" where "contMask = 0x000fffff"

definition coeffMaxBits :: "32 word" where "coeffMaxBits = 0x00800000"
definition coeffMaxMask :: "32 word" where "coeffMaxMask = 0x00100000"

definition signOffset :: nat where "signOffset = 31"
definition combOffset :: nat where "combOffset = 26"
definition expOffset :: nat where "expOffset = 20"

definition maxCoeff :: int where "maxCoeff = 9999999"
definition minExp :: int where "minExp = - 95"
definition maxExp :: int where "maxExp = 96"

definition failDec32 :: Dec32 where "failDec32 = 0xffffffff"

section \<open>Field extraction\<close>

definition combBits :: "Dec32 \<Rightarrow> 32 word" where
  "combBits d = drop_bit combOffset (d AND combMask)"

definition expBits :: "Dec32 \<Rightarrow> 32 word" where
  "expBits d = drop_bit expOffset (d AND expMask)"

definition contBits :: "Dec32 \<Rightarrow> 32 word" where
  "contBits d = d AND contMask"

section \<open>Sign\<close>

definition Sign :: "Dec32 \<Rightarrow> int" where
  "Sign d = (if d AND signMask = signMask then - 1 else 1)"

section \<open>EncodeDec32\<close>

text \<open>
  The first \<^verbatim>\<open>if\<close> sets the sign bit and replaces \<^verbatim>\<open>coeff\<close> by \<^verbatim>\<open>0 - coeff\<close>
  (an \<^verbatim>\<open>int32\<close> subtraction, which wraps). The two range checks return the failure
  word. \<^verbatim>\<open>&^\<close> is AND NOT; \<^verbatim>\<open><<\<close> on \<^verbatim>\<open>uint32\<close> is \<^const>\<open>push_bit\<close>.
\<close>

definition EncodeDec32 :: "int32 \<Rightarrow> int8 \<Rightarrow> Dec32 \<times> bool" where
  "EncodeDec32 coeff0 expn =
    (let (result, coeff) =
           (if sint coeff0 < 0 then (0 OR signMask, 0 - coeff0) else (0, coeff0))
     in if sint coeff > maxCoeff then (failDec32, False)
        else if sint expn < minExp \<or> sint expn > maxExp then (failDec32, False)
        else
          let result = result OR (coeff AND contMask);
              uexp = expn
          in if coeffMaxBits AND coeff = coeffMaxBits
             then (result OR (0x60000000
                     OR push_bit 21 (ucast (uexp AND 0xc0))
                     OR push_bit 6 (coeff AND coeffMaxMask)
                     OR push_bit 20 (ucast (uexp AND 0x3f))), True)
             else (result OR (push_bit 23 (ucast (uexp AND 0xc0))
                     OR push_bit 6 (coeff AND NOT contMask)
                     OR push_bit 20 (ucast (uexp AND 0x3f))), True))"

section \<open>Decode\<close>

definition Decode :: "Dec32 \<Rightarrow> int32 \<times> int8 \<times> bool" where
  "Decode d =
    (let comb = combBits d; expb = expBits d; cont = contBits d;
         (coeff, expn, ok) =
           (if comb AND 0x18 = 0x18
            then (push_bit 20 (comb AND 0x01) OR coeffMaxBits OR cont,
                  ucast ((push_bit 5 comb AND 0xc0) OR expb), True)
            else (push_bit 20 (comb AND 0x07) OR cont,
                  ucast ((push_bit 3 comb AND 0xc0) OR expb), True));
         coeff = (if ok then (if d AND signMask = signMask then 0 - coeff else coeff)
                  else coeff)
     in (coeff, expn, ok))"

section \<open>Classification\<close>

definition Zero :: "Dec32 \<Rightarrow> bool" where
  "Zero d = (case Decode d of (coeff, _, _) \<Rightarrow> coeff = 0 \<or> sint coeff > maxCoeff)"

definition Valid :: "Dec32 \<Rightarrow> bool" where
  "Valid d = (case Decode d of (coeff, expn, ok) \<Rightarrow>
     ok \<and> sint expn \<ge> minExp \<and> sint expn \<le> maxExp \<and> sint coeff \<le> maxCoeff)"

definition IsInf :: "Dec32 \<Rightarrow> bool" where
  "IsInf d = (combBits d = 0x1e)"

definition IsNaN :: "Dec32 \<Rightarrow> bool" where
  "IsNaN d = (combBits d = 0x1f)"

section \<open>Float32\<close>

text \<open>
  The result of \<^verbatim>\<open>Float32\<close> is a binary32 value: NaN or a finite number, given here by
  the real it denotes. The rounding of binary32 is the parameter \<open>rnd\<close>: every
  conversion from an integer and every arithmetic operation of the source rounds its
  exact result once. The constants \<^verbatim>\<open>10.0\<close> and \<^verbatim>\<open>1.0\<close> are binary32 values as they
  stand. The operands are small (a coefficient below \<open>2 ^ 24\<close> in magnitude, an
  exponent of 8 bits), so no operation overflows, and the divisor is not zero in the
  branch that divides.
\<close>

datatype float32 = NaN | Finite real

definition Float32 :: "(real \<Rightarrow> real) \<Rightarrow> Dec32 \<Rightarrow> float32" where
  "Float32 rnd d =
    (case Decode d of (coeff, expn, ok) \<Rightarrow>
       if \<not> ok then NaN
       else if sint expn > 0
         then Finite (rnd (rnd (of_int (sint coeff)) * rnd (10 * rnd (of_int (sint expn)))))
       else if sint expn < 0
         then Finite (rnd (rnd (of_int (sint coeff)) * rnd (1 / rnd (10 * rnd (of_int (sint expn))))))
       else Finite (rnd (of_int (sint coeff))))"

section \<open>The two halves of Decode\<close>

text \<open>
  Auxiliary names for the proofs: the coefficient and the exponent that \<^const>\<open>Decode\<close>
  assembles from the fields before it applies the sign. \<open>Decode_patterns\<close> below
  shows that \<^const>\<open>Decode\<close> is built from them.
\<close>

definition coeffPattern :: "Dec32 \<Rightarrow> 32 word" where
  "coeffPattern d =
     (if combBits d AND 0x18 = 0x18
      then push_bit 20 (combBits d AND 0x01) OR coeffMaxBits OR contBits d
      else push_bit 20 (combBits d AND 0x07) OR contBits d)"

definition expPattern :: "Dec32 \<Rightarrow> 8 word" where
  "expPattern d =
     (if combBits d AND 0x18 = 0x18
      then ucast ((push_bit 5 (combBits d) AND 0xc0) OR expBits d)
      else ucast ((push_bit 3 (combBits d) AND 0xc0) OR expBits d))"

section \<open>Basic facts\<close>

lemmas dec32_consts =
  signMask_def combMask_def expMask_def contMask_def coeffMaxBits_def coeffMaxMask_def
  signOffset_def combOffset_def expOffset_def maxCoeff_def minExp_def maxExp_def
  failDec32_def

lemmas dec32_fields = combBits_def expBits_def contBits_def

text \<open>Equality of 32-bit words, bit by bit.\<close>

lemma less_32_cases:
  "(n::nat) < 32 \<longleftrightarrow>
     n \<in> {0,1,2,3,4,5,6,7,8,9,10,11,12,13,14,15,16,17,18,19,20,21,22,23,24,25,26,27,28,29,30,31}"
  by simp arith

lemma all_less_32:
  "(\<forall>n<32. P n) \<longleftrightarrow>
     (\<forall>n\<in>{0,1,2,3,4,5,6,7,8,9,10,11,12,13,14,15,16,17,18,19,20,21,22,23,24,25,26,27,28,29,30,31::nat}. P n)"
  using less_32_cases by blast

lemma word32_eq_iff: "(a :: 32 word) = b \<longleftrightarrow> (\<forall>n<32. bit a n = bit b n)"
  by (auto intro: bit_word_eqI)

lemmas blast32 = word32_eq_iff all_less_32 bit_simps

lemma Decode_patterns:
  "Decode d = (if d AND signMask = signMask then 0 - coeffPattern d else coeffPattern d,
               expPattern d, True)"
  by (simp add: Decode_def coeffPattern_def expPattern_def Let_def)

lemma sign_set_iff: "d AND signMask = signMask \<longleftrightarrow> bit d 31"
  unfolding dec32_consts by (simp add: blast32)

lemma coeffPattern_take24: "take_bit 24 (coeffPattern d) = coeffPattern d"
  unfolding coeffPattern_def dec32_fields dec32_consts by (simp add: blast32)

lemma fields_sign:
  "combBits (d OR signMask) = combBits d"
  "expBits (d OR signMask) = expBits d"
  "contBits (d OR signMask) = contBits d"
  unfolding dec32_fields dec32_consts by (simp_all add: blast32)

lemma patterns_sign:
  "coeffPattern (d OR signMask) = coeffPattern d"
  "expPattern (d OR signMask) = expPattern d"
  by (simp_all add: coeffPattern_def expPattern_def fields_sign)

lemma sint_small:
  fixes x :: "32 word"
  assumes "take_bit 24 x = x"
  shows "0 \<le> sint x" "sint x < 2 ^ 24" "sint (0 - x) = - sint x"
proof -
  have u: "uint x < 2 ^ 24"
    using assms by (metis take_bit_int_less_exp unsigned_take_bit_eq)
  have p: "0 \<le> uint x"
    by simp
  have lo: "- (2 ^ 31) \<le> uint x"
    by (rule order_trans [OF _ p]) simp
  have hi: "uint x < 2 ^ 31"
    by (rule less_trans [OF u]) simp
  have lo': "- (2 ^ 31) \<le> - uint x"
    using hi by simp
  have hi': "- uint x < 2 ^ 31"
    by (rule le_less_trans [of _ 0]) (use p in simp_all)
  have s: "sint x = uint x"
    using signed_take_bit_int_eq_self [OF lo hi] by (simp add: sint_uint)
  show "0 \<le> sint x" using s by simp
  show "sint x < 2 ^ 24" using s u by simp
  show "sint (0 - x) = - sint x"
    using signed_take_bit_int_eq_self [OF lo' hi'] s by (simp add: sint_word_minus)
qed

lemma coeffPattern_sint:
  "0 \<le> sint (coeffPattern d)" "sint (coeffPattern d) < 2 ^ 24"
  "sint (0 - coeffPattern d) = - sint (coeffPattern d)"
  using sint_small [OF coeffPattern_take24] by blast+

text \<open>A coefficient in range occupies the low 24 bits.\<close>

lemma coeff_range_take24:
  fixes c :: "32 word"
  assumes "0 \<le> sint c" "sint c \<le> 9999999"
  shows "take_bit 24 c = c"
proof -
  have "take_bit 32 (sint c) = sint c"
    by (rule take_bit_int_eq_self) (use assms in simp_all)
  then have u: "uint c = sint c"
    using uint_sint [of c] by simp
  have "uint c < 2 ^ 24"
    using u assms by simp
  then have "take_bit 24 (uint c) = uint c"
    by (intro take_bit_int_eq_self) simp_all
  then show ?thesis
    by (metis unsigned_take_bit_eq word_uint_eq_iff)
qed

lemma coeff_high_bits_clear:
  fixes c :: "32 word"
  assumes "take_bit 24 c = c"
  shows "\<not> bit c 24" "\<not> bit c 25" "\<not> bit c 26" "\<not> bit c 27"
        "\<not> bit c 28" "\<not> bit c 29" "\<not> bit c 30" "\<not> bit c 31"
proof -
  have clear: "\<not> bit c n" if "24 \<le> n" for n
    using that assms bit_take_bit_iff [of 24 c n] by auto
  show "\<not> bit c 24" "\<not> bit c 25" "\<not> bit c 26" "\<not> bit c 27"
       "\<not> bit c 28" "\<not> bit c 29" "\<not> bit c 30" "\<not> bit c 31"
    by (simp_all add: clear)
qed

lemma sint_neg_coeff:
  fixes c :: "32 word"
  assumes "1 \<le> sint c" "sint c \<le> 9999999"
  shows "sint (- c) = - sint c"
proof -
  have "signed_take_bit 31 (- sint c) = - sint c"
    by (rule signed_take_bit_int_eq_self) (use assms in simp_all)
  then show ?thesis
    by (simp add: sint_word_minus)
qed

lemma Encode_in_range:
  assumes "0 \<le> sint c" "sint c \<le> 9999999" "- 95 \<le> sint e" "sint e \<le> 96"
  shows "snd (EncodeDec32 c e)" "\<not> bit (fst (EncodeDec32 c e)) 31"
proof -
  note hi = coeff_high_bits_clear [OF coeff_range_take24 [OF assms(1,2)]]
  show "snd (EncodeDec32 c e)"
    using assms by (simp add: EncodeDec32_def Let_def maxCoeff_def minExp_def maxExp_def)
  show "\<not> bit (fst (EncodeDec32 c e)) 31"
    using assms hi
    by (simp add: EncodeDec32_def Let_def dec32_consts bit_simps)
qed

lemma Encode_negated:
  assumes "1 \<le> sint c" "sint c \<le> 9999999" "- 95 \<le> sint e" "sint e \<le> 96"
  shows "EncodeDec32 (- c) e = (fst (EncodeDec32 c e) OR signMask, True)"
proof -
  have neg: "sint (- c) < 0"
    using sint_neg_coeff [OF assms(1,2)] assms(1) by simp
  show ?thesis
    using assms neg
    by (simp add: EncodeDec32_def Let_def maxCoeff_def minExp_def maxExp_def ac_simps)
qed

lemma xor_sign:
  fixes w :: "32 word"
  assumes "\<not> bit w 31"
  shows "(w OR signMask) XOR w = signMask" "(w OR signMask) AND signMask = signMask"
        "w AND signMask \<noteq> signMask"
  using assms unfolding signMask_def by (simp_all add: blast32)

text \<open>Bits of the exponent byte and of a coefficient in range, from their values.\<close>

lemma less_8_cases: "(n::nat) < 8 \<longleftrightarrow> n \<in> {0,1,2,3,4,5,6,7}"
  by simp arith

lemma all_less_8: "(\<forall>n<8. P n) \<longleftrightarrow> (\<forall>n\<in>{0,1,2,3,4,5,6,7::nat}. P n)"
  using less_8_cases by blast

lemma word8_eq_iff: "(a :: 8 word) = b \<longleftrightarrow> (\<forall>n<8. bit a n = bit b n)"
  by (auto intro: bit_word_eqI)

lemmas blast8 = word8_eq_iff all_less_8 bit_simps

lemma comb_large_iff: "combBits d AND 0x18 = 0x18 \<longleftrightarrow> bit d 30 \<and> bit d 29"
  unfolding dec32_fields dec32_consts by (simp add: blast32) blast

lemma coeff_bit23_iff: "coeffMaxBits AND c = coeffMaxBits \<longleftrightarrow> bit c 23"
  unfolding dec32_consts by (simp add: blast32)

lemma div_between:
  fixes s :: int
  assumes "k * d \<le> s" "s < k * d + d"
  shows "s div d = k"
proof (rule int_div_pos_eq [where r = "s - k * d"])
  show "s = d * k + (s - k * d)" by (simp add: mult.commute)
  show "0 \<le> s - k * d" using assms(1) by simp
  show "s - k * d < d" using assms(2) by simp
qed

lemma exp_bit_div:
  fixes e :: "8 word"
  shows "bit e 7 \<longleftrightarrow> odd (sint e div 128)" and "bit e 6 \<longleftrightarrow> odd (sint e div 64)"
  using bit_sint_iff [of e 7] bit_sint_iff [of e 6] by (simp_all add: bit_iff_odd)

lemma exp_top_bits:
  fixes e :: "8 word"
  assumes "- 95 \<le> sint e" "sint e \<le> 96"
  shows "bit e 7 \<and> bit e 6 \<longleftrightarrow> - 64 \<le> sint e \<and> sint e \<le> - 1"
proof -
  consider "sint e < - 64" | "- 64 \<le> sint e" "sint e < 0"
    | "0 \<le> sint e" "sint e < 64" | "64 \<le> sint e"
    by linarith
  then show ?thesis
  proof cases
    case 1
    have "sint e div 64 = - 2"
      by (rule div_between) (use 1 assms in simp_all)
    then show ?thesis
      using 1 by (simp add: exp_bit_div)
  next
    case 2
    have "sint e div 128 = - 1" "sint e div 64 = - 1"
      by (rule div_between, use 2 in simp_all)+
    then show ?thesis
      using 2 by (simp add: exp_bit_div)
  next
    case 3
    have "sint e div 128 = 0"
      by (rule div_between) (use 3 in simp_all)
    then show ?thesis
      using 3 by (simp add: exp_bit_div)
  next
    case 4
    have "sint e div 128 = 0"
      by (rule div_between) (use 4 assms in simp_all)
    then show ?thesis
      using 4 by (simp add: exp_bit_div)
  qed
qed

lemma coeff_bit_div:
  fixes c :: "32 word"
  shows "bit c 23 \<longleftrightarrow> odd (sint c div 8388608)"
    and "bit c 22 \<longleftrightarrow> odd (sint c div 4194304)"
    and "bit c 21 \<longleftrightarrow> odd (sint c div 2097152)"
  using bit_sint_iff [of c 23] bit_sint_iff [of c 22] bit_sint_iff [of c 21]
  by (simp_all add: bit_iff_odd)

lemma coeff_div_small:
  fixes c :: "32 word"
  assumes "0 \<le> sint c" "sint c < 8388608"
  shows "sint c div 8388608 = 0"
  by (rule div_between) (use assms in simp_all)

lemma coeff_div_large:
  fixes c :: "32 word"
  assumes "8388608 \<le> sint c" "sint c \<le> 9999999"
  shows "sint c div 8388608 = 1" "sint c div 4194304 = 2" "sint c div 2097152 = 4"
  by (rule div_between, use assms in simp_all)+

lemma coeff_bit23_iff_large:
  fixes c :: "32 word"
  assumes "0 \<le> sint c" "sint c \<le> 9999999"
  shows "bit c 23 \<longleftrightarrow> 8388608 \<le> sint c"
proof (cases "8388608 \<le> sint c")
  case True
  then show ?thesis
    using coeff_div_large(1) [OF True assms(2)] by (simp add: coeff_bit_div(1))
next
  case False
  then have "sint c < 8388608" by simp
  from coeff_div_small [OF assms(1) this] False show ?thesis
    by (simp add: coeff_bit_div(1))
qed

lemma coeff_large_bits:
  fixes c :: "32 word"
  assumes "0 \<le> sint c" "sint c \<le> 9999999" "bit c 23"
  shows "\<not> bit c 22" "\<not> bit c 21"
proof -
  have l: "8388608 \<le> sint c"
    using coeff_bit23_iff_large [OF assms(1,2)] assms(3) by simp
  show "\<not> bit c 22"
    using coeff_div_large(2) [OF l assms(2)] by (simp add: coeff_bit_div(2))
  show "\<not> bit c 21"
    using coeff_div_large(3) [OF l assms(2)] by (simp add: coeff_bit_div(3))
qed


lemma Encode_large_round_trip:
  assumes "0 \<le> sint c" "sint c \<le> 9999999" "- 95 \<le> sint e" "sint e \<le> 96"
    and large: "bit c 23"
  shows "Decode (fst (EncodeDec32 c e)) = (c, e, True)"
proof -
  note hi = coeff_high_bits_clear [OF coeff_range_take24 [OF assms(1,2)]]
  note mid = coeff_large_bits [OF assms(1,2) large]
  define p where "p = fst (EncodeDec32 c e)"
  have p: "p = (c AND contMask) OR (0x60000000
                     OR push_bit 21 (ucast (e AND 0xc0))
                     OR push_bit 6 (c AND coeffMaxMask)
                     OR push_bit 20 (ucast (e AND 0x3f)))"
    using assms(1-4) large
    by (simp add: p_def EncodeDec32_def Let_def maxCoeff_def minExp_def maxExp_def coeff_bit23_iff)
  have sign: "\<not> bit p 31"
    using Encode_in_range(2) [OF assms(1-4)] by (simp add: p_def)
  have form: "combBits p AND 0x18 = 0x18"
    unfolding comb_large_iff by (simp add: p bit_simps)
  have "coeffPattern p = push_bit 20 (combBits p AND 0x01) OR coeffMaxBits OR contBits p"
    by (simp add: coeffPattern_def form)
  also have "\<dots> = c"
    using large hi mid by (simp add: p dec32_fields dec32_consts blast32)
  finally have co: "coeffPattern p = c" .
  have "expPattern p = ucast ((push_bit 5 (combBits p) AND 0xc0) OR expBits p)"
    by (simp add: expPattern_def form)
  also have "\<dots> = e"
    by (simp add: p dec32_fields dec32_consts blast8)
  finally have ex: "expPattern p = e" .
  show ?thesis
    using sign co ex by (simp add: Decode_patterns sign_set_iff flip: p_def)
qed

lemma Encode_normal_round_trip:
  assumes "0 \<le> sint c" "sint c \<le> 9999999" "- 95 \<le> sint e" "sint e \<le> 96"
    and normal: "\<not> bit c 23" and top: "\<not> (bit e 7 \<and> bit e 6)"
  shows "Decode (fst (EncodeDec32 c e)) = (c, e, True)"
proof -
  note hi = coeff_high_bits_clear [OF coeff_range_take24 [OF assms(1,2)]]
  define p where "p = fst (EncodeDec32 c e)"
  have p: "p = (c AND contMask) OR (push_bit 23 (ucast (e AND 0xc0))
                     OR push_bit 6 (c AND NOT contMask)
                     OR push_bit 20 (ucast (e AND 0x3f)))"
    using assms(1-4) normal
    by (simp add: p_def EncodeDec32_def Let_def maxCoeff_def minExp_def maxExp_def coeff_bit23_iff)
  have sign: "\<not> bit p 31"
    using Encode_in_range(2) [OF assms(1-4)] by (simp add: p_def)
  have form: "combBits p AND 0x18 \<noteq> 0x18"
    unfolding comb_large_iff using top hi normal by (simp add: p dec32_consts bit_simps)
  have "coeffPattern p = push_bit 20 (combBits p AND 0x07) OR contBits p"
    by (simp add: coeffPattern_def form)
  also have "\<dots> = c"
    using normal hi by (simp add: p dec32_fields dec32_consts blast32)
  finally have co: "coeffPattern p = c" .
  have "expPattern p = ucast ((push_bit 3 (combBits p) AND 0xc0) OR expBits p)"
    by (simp add: expPattern_def form)
  also have "\<dots> = e"
    using normal hi by (simp add: p dec32_fields dec32_consts blast8)
  finally have ex: "expPattern p = e" .
  show ?thesis
    using sign co ex by (simp add: Decode_patterns sign_set_iff flip: p_def)
qed

lemma Encode_normal_decodes_large:
  assumes "0 \<le> sint c" "sint c \<le> 9999999" "- 95 \<le> sint e" "sint e \<le> 96"
    and normal: "\<not> bit c 23" and top: "bit e 7" "bit e 6"
  shows "bit (coeffPattern (fst (EncodeDec32 c e))) 23"
proof -
  define p where "p = fst (EncodeDec32 c e)"
  have p: "p = (c AND contMask) OR (push_bit 23 (ucast (e AND 0xc0))
                     OR push_bit 6 (c AND NOT contMask)
                     OR push_bit 20 (ucast (e AND 0x3f)))"
    using assms(1-4) normal
    by (simp add: p_def EncodeDec32_def Let_def maxCoeff_def minExp_def maxExp_def coeff_bit23_iff)
  have form: "combBits p AND 0x18 = 0x18"
    unfolding comb_large_iff using top by (simp add: p dec32_consts bit_simps)
  have "coeffPattern p = push_bit 20 (combBits p AND 0x01) OR coeffMaxBits OR contBits p"
    by (simp add: coeffPattern_def form)
  then show ?thesis
    by (simp add: dec32_consts bit_simps flip: p_def)
qed

lemma sint_minus_in_range:
  fixes c :: "32 word"
  assumes "- 2147483648 < sint c"
  shows "sint (- c) = - sint c"
proof -
  have "sint c < 2 ^ (32 - 1)"
    using sint_lt [of c] by simp
  then have "signed_take_bit 31 (- sint c) = - sint c"
    using assms by (intro signed_take_bit_int_eq_self) simp_all
  then show ?thesis
    by (simp add: sint_word_minus)
qed

lemma Encode_nonneg_round_trip_iff:
  assumes "0 \<le> sint c" "sint c \<le> 9999999" "- 95 \<le> sint e" "sint e \<le> 96"
  shows "coeffPattern (fst (EncodeDec32 c e)) = c \<and> expPattern (fst (EncodeDec32 c e)) = e
           \<longleftrightarrow> sint e < - 64 \<or> 0 \<le> sint e \<or> 8388608 \<le> sint c"
proof -
  have sign: "\<not> bit (fst (EncodeDec32 c e)) 31"
    using Encode_in_range(2) [OF assms] .
  then have dec: "Decode (fst (EncodeDec32 c e)) =
      (coeffPattern (fst (EncodeDec32 c e)), expPattern (fst (EncodeDec32 c e)), True)"
    by (simp add: Decode_patterns sign_set_iff)
  note l = coeff_bit23_iff_large [OF assms(1,2)]
  note t = exp_top_bits [OF assms(3,4)]
  show ?thesis
  proof (cases "bit c 23")
    case True
    then show ?thesis
      using Encode_large_round_trip [OF assms True] dec l by simp
  next
    case normal: False
    show ?thesis
    proof (cases "bit e 7 \<and> bit e 6")
      case True
      then have "bit (coeffPattern (fst (EncodeDec32 c e))) 23"
        using Encode_normal_decodes_large [OF assms normal] by simp
      then have "coeffPattern (fst (EncodeDec32 c e)) \<noteq> c"
        using normal by auto
      then show ?thesis
        using True normal l t by auto
    next
      case False
      then show ?thesis
        using Encode_normal_round_trip [OF assms normal False] dec normal l t by auto
    qed
  qed
qed

section \<open>Decode always reports success\<close>

text \<open>
  C4. Decode is total and never fails: on every 32-bit word the third component of its
  result, the success flag, is true. Both branches of the combination test set
  \<^verbatim>\<open>ok = true\<close>, so the failure outcome cannot be produced.
\<close>

theorem Decode_always_ok: "snd (snd (Decode d)) = True"
  by (simp add: Decode_def Let_def split: if_splits)

section \<open>Boundary vectors of EncodeDec32\<close>

text \<open>
  C7. EncodeDec32 produces exactly the boundary words of the test table, each with
  success: (2, -95) gives 0x42100002, (2, 96) gives 0x22000002, (9999999, 0) gives
  0x6408967f, (8388607, 0) gives 0x1c0fffff and (8388608, 0) gives 0x60000000.
\<close>

theorem EncodeDec32_boundary_vectors:
  "EncodeDec32 2 (- 95) = (0x42100002, True) \<and>
   EncodeDec32 2 96 = (0x22000002, True) \<and>
   EncodeDec32 9999999 0 = (0x6408967f, True) \<and>
   EncodeDec32 8388607 0 = (0x1c0fffff, True) \<and>
   EncodeDec32 8388608 0 = (0x60000000, True)"
  by (simp add: EncodeDec32_def dec32_consts)

section \<open>In-range inputs that encode to a special value\<close>

text \<open>
  C10. There are in-range finite inputs on which EncodeDec32 succeeds and yet returns a
  word classified as a special value: EncodeDec32(8388608, -1) succeeds with the word
  0x7bf00000, whose combination field is 11110 (0x1e), so IsInf holds of it. The
  coefficient 8388608 is at most 9,999,999 and the exponent -1 lies in [-95, 96].
\<close>

theorem EncodeDec32_in_range_yields_Inf:
  "sint (8388608 :: int32) = 8388608 \<and> \<bar>sint (8388608 :: int32)\<bar> \<le> maxCoeff \<and>
   minExp \<le> sint (- 1 :: int8) \<and> sint (- 1 :: int8) \<le> maxExp \<and>
   EncodeDec32 8388608 (- 1) = (0x7bf00000, True) \<and>
   combBits 0x7bf00000 = 0x1e \<and>
   IsInf (fst (EncodeDec32 8388608 (- 1)))"
  by (simp add: EncodeDec32_def IsInf_def dec32_fields dec32_consts)

section \<open>Infinity and NaN\<close>

text \<open>
  C8. For every 32-bit word, IsInf is true exactly when the 5-bit combination field
  (bits 30 to 26) is binary 11110, and IsNaN is true exactly when that field is binary
  11111; so IsInf and IsNaN are never both true of one word. The field is given both
  bit by bit and as the value of the five bits above bit 26.
\<close>

theorem IsInf_IsNaN_combination_field:
  "(IsInf d \<longleftrightarrow> bit d 30 \<and> bit d 29 \<and> bit d 28 \<and> bit d 27 \<and> \<not> bit d 26) \<and>
   (IsNaN d \<longleftrightarrow> bit d 30 \<and> bit d 29 \<and> bit d 28 \<and> bit d 27 \<and> bit d 26) \<and>
   (IsInf d \<longleftrightarrow> take_bit 5 (drop_bit 26 d) = 0x1e) \<and>
   (IsNaN d \<longleftrightarrow> take_bit 5 (drop_bit 26 d) = 0x1f) \<and>
   \<not> (IsInf d \<and> IsNaN d)"
proof -
  have inf: "IsInf d \<longleftrightarrow> bit d 30 \<and> bit d 29 \<and> bit d 28 \<and> bit d 27 \<and> \<not> bit d 26"
    unfolding IsInf_def dec32_fields dec32_consts by (simp add: blast32) blast
  have nan: "IsNaN d \<longleftrightarrow> bit d 30 \<and> bit d 29 \<and> bit d 28 \<and> bit d 27 \<and> bit d 26"
    unfolding IsNaN_def dec32_fields dec32_consts by (simp add: blast32) blast
  have field: "combBits d = take_bit 5 (drop_bit 26 d)"
    unfolding dec32_fields dec32_consts by (simp add: blast32)
  show ?thesis
    using inf nan field by (auto simp: IsInf_def IsNaN_def)
qed

section \<open>Valid\<close>

text \<open>
  C5, as the claim states it, fails: the word 0x80000001 decodes to the coefficient -1
  with exponent 0, Valid is true of it, and -1 is not in [0, 9,999,999].
\<close>

theorem Valid_negative_coefficient_counterexample:
  "\<not> (Valid 0x80000001 \<longleftrightarrow>
        snd (snd (Decode 0x80000001)) \<and>
        minExp \<le> sint (fst (snd (Decode 0x80000001))) \<and>
        sint (fst (snd (Decode 0x80000001))) \<le> maxExp \<and>
        0 \<le> sint (fst (Decode 0x80000001)) \<and> sint (fst (Decode 0x80000001)) \<le> maxCoeff)"
  by (simp add: Valid_def Decode_def Let_def dec32_fields dec32_consts)

text \<open>
  C5, amended. For every 32-bit word whose sign bit is clear, or whose decoded
  coefficient has magnitude at most 9,999,999, Valid is true exactly when Decode
  succeeds, the decoded exponent lies in [-95, 96] and the magnitude of the decoded
  coefficient is at most 9,999,999.
\<close>

theorem Valid_iff_magnitude_in_range:
  assumes "d AND signMask \<noteq> signMask \<or> \<bar>sint (fst (Decode d))\<bar> \<le> maxCoeff"
  shows "Valid d \<longleftrightarrow>
           snd (snd (Decode d)) \<and>
           minExp \<le> sint (fst (snd (Decode d))) \<and> sint (fst (snd (Decode d))) \<le> maxExp \<and>
           \<bar>sint (fst (Decode d))\<bar> \<le> maxCoeff"
proof (cases "d AND signMask = signMask")
  case True
  then show ?thesis
    using assms coeffPattern_sint [of d]
    by (auto simp: Valid_def Decode_patterns maxCoeff_def)
next
  case False
  then show ?thesis
    using coeffPattern_sint [of d]
    by (auto simp: Valid_def Decode_patterns maxCoeff_def)
qed

theorem Valid_iff_magnitude_in_range_witness:
  "\<bar>sint (fst (Decode 0x80000001))\<bar> \<le> maxCoeff \<and>
   (Valid 0x80000001 \<longleftrightarrow>
      snd (snd (Decode 0x80000001)) \<and>
      minExp \<le> sint (fst (snd (Decode 0x80000001))) \<and>
      sint (fst (snd (Decode 0x80000001))) \<le> maxExp \<and>
      \<bar>sint (fst (Decode 0x80000001))\<bar> \<le> maxCoeff)"
proof -
  have h: "\<bar>sint (fst (Decode 0x80000001))\<bar> \<le> maxCoeff"
    by (simp add: Decode_def Let_def dec32_fields dec32_consts)
  show ?thesis
    using h Valid_iff_magnitude_in_range [of "0x80000001"] by blast
qed

section \<open>Sign symmetry of EncodeDec32\<close>

text \<open>
  C9. For every coefficient c with 1 \<le> c \<le> 9,999,999 and every exponent e in [-95, 96],
  EncodeDec32(-c, e) and EncodeDec32(c, e) both succeed, their words differ in the sign
  bit (bit 31) and in no other bit, and decoding the two words gives coefficients that
  are exact negations of one another and equal exponents.
\<close>

theorem EncodeDec32_sign_symmetry:
  assumes "1 \<le> sint c" "sint c \<le> 9999999" "- 95 \<le> sint e" "sint e \<le> 96"
  shows "snd (EncodeDec32 (- c) e) \<and> snd (EncodeDec32 c e) \<and>
         fst (EncodeDec32 (- c) e) XOR fst (EncodeDec32 c e) = 0x80000000 \<and>
         sint (fst (Decode (fst (EncodeDec32 (- c) e)))) =
           - sint (fst (Decode (fst (EncodeDec32 c e)))) \<and>
         fst (snd (Decode (fst (EncodeDec32 (- c) e)))) =
           fst (snd (Decode (fst (EncodeDec32 c e))))"
proof -
  define p where "p = fst (EncodeDec32 c e)"
  have nonneg: "0 \<le> sint c"
    using assms(1) by simp
  have ok: "snd (EncodeDec32 c e)" and clear: "\<not> bit p 31"
    using Encode_in_range [OF nonneg assms(2,3,4)] by (simp_all add: p_def)
  have n: "EncodeDec32 (- c) e = (p OR signMask, True)"
    using Encode_negated [OF assms] by (simp add: p_def)
  have x: "(p OR signMask) XOR p = 0x80000000"
    using xor_sign(1) [OF clear] by (simp add: signMask_def)
  have dn: "Decode (p OR signMask) = (0 - coeffPattern p, expPattern p, True)"
    using xor_sign(2) [OF clear] by (simp add: Decode_patterns patterns_sign)
  have dp: "Decode p = (coeffPattern p, expPattern p, True)"
    using xor_sign(3) [OF clear] by (simp add: Decode_patterns)
  show ?thesis
    using ok x coeffPattern_sint(3) [of p]
    by (simp add: n dn dp flip: p_def)
qed

theorem EncodeDec32_sign_symmetry_witness:
  "EncodeDec32 (- 9999999) (- 95) = (0xf618967f, True) \<and>
   EncodeDec32 9999999 (- 95) = (0x7618967f, True) \<and>
   snd (EncodeDec32 (- 9999999) (- 95)) \<and> snd (EncodeDec32 9999999 (- 95)) \<and>
   fst (EncodeDec32 (- 9999999) (- 95)) XOR fst (EncodeDec32 9999999 (- 95)) = 0x80000000 \<and>
   sint (fst (Decode (fst (EncodeDec32 (- 9999999) (- 95))))) =
     - sint (fst (Decode (fst (EncodeDec32 9999999 (- 95))))) \<and>
   fst (snd (Decode (fst (EncodeDec32 (- 9999999) (- 95))))) =
     fst (snd (Decode (fst (EncodeDec32 9999999 (- 95)))))"
proof -
  have h: "1 \<le> sint (9999999 :: int32)" "sint (9999999 :: int32) \<le> 9999999"
          "- 95 \<le> sint (- 95 :: int8)" "sint (- 95 :: int8) \<le> 96"
    by simp_all
  have v: "EncodeDec32 (- 9999999) (- 95) = (0xf618967f, True)"
          "EncodeDec32 9999999 (- 95) = (0x7618967f, True)"
    by (simp_all add: EncodeDec32_def dec32_consts)
  show ?thesis
    using EncodeDec32_sign_symmetry [OF h] v by blast
qed

section \<open>Round trip\<close>

text \<open>
  C1. The round trip Decode(EncodeDec32(c, e)) = (c, e, true) fails at the in-range
  pair (2, -1). The exponent is stored as the 8-bit two's complement pattern 0xff,
  whose two top bits are 11; in the normal form they become the two top bits of the
  combination field, which Decode reads as the mark of the large-coefficient form. So
  EncodeDec32(2, -1) is the word 0x63f00002 and Decode of it is (8388610, 63, true).
\<close>

theorem EncodeDec32_round_trip_fails_at_2_minus1:
  "sint (2 :: int32) = 2 \<and> sint (- 1 :: int8) = - 1 \<and>
   EncodeDec32 2 (- 1) = (0x63f00002, True) \<and>
   Decode (fst (EncodeDec32 2 (- 1))) = (8388610, 63, True) \<and>
   Decode (fst (EncodeDec32 2 (- 1))) \<noteq> (2, - 1, True)"
  by (simp add: EncodeDec32_def Decode_def Let_def dec32_fields dec32_consts)

text \<open>
  Where the round trip holds: for every coefficient c of magnitude at most 9,999,999
  and every exponent e in [-95, 96], EncodeDec32 succeeds, and decoding its word gives
  back (c, e, true) exactly when e is outside [-64, -1] or the magnitude of c is at
  least 8388608 (the large-coefficient form).
\<close>

theorem EncodeDec32_round_trip_iff:
  assumes "\<bar>sint c\<bar> \<le> 9999999" "- 95 \<le> sint e" "sint e \<le> 96"
  shows "snd (EncodeDec32 c e) \<and>
         (Decode (fst (EncodeDec32 c e)) = (c, e, True)
            \<longleftrightarrow> sint e < - 64 \<or> 0 \<le> sint e \<or> 8388608 \<le> \<bar>sint c\<bar>)"
proof (cases "0 \<le> sint c")
  case True
  then have r: "sint c \<le> 9999999"
    using assms(1) by simp
  have "\<not> bit (fst (EncodeDec32 c e)) 31"
    using Encode_in_range(2) [OF True r assms(2,3)] .
  then have "Decode (fst (EncodeDec32 c e)) =
      (coeffPattern (fst (EncodeDec32 c e)), expPattern (fst (EncodeDec32 c e)), True)"
    by (simp add: Decode_patterns sign_set_iff)
  then show ?thesis
    using Encode_nonneg_round_trip_iff [OF True r assms(2,3)]
      Encode_in_range(1) [OF True r assms(2,3)] True by simp
next
  case False
  define m where "m = - c"
  have neg: "sint (- c) = - sint c"
    using assms(1) by (intro sint_minus_in_range) simp
  have m: "1 \<le> sint m" "sint m \<le> 9999999" "0 \<le> sint m" "c = - m"
    using False assms(1) neg by (simp_all add: m_def)
  define p where "p = fst (EncodeDec32 m e)"
  have clear: "\<not> bit p 31"
    using Encode_in_range(2) [OF m(3,2) assms(2,3)] by (simp add: p_def)
  have enc: "EncodeDec32 c e = (p OR signMask, True)"
    using Encode_negated [OF m(1,2) assms(2,3)] by (simp add: p_def m(4))
  have dec: "Decode (p OR signMask) = (0 - coeffPattern p, expPattern p, True)"
    using xor_sign(2) [OF clear] by (simp add: Decode_patterns patterns_sign)
  have "0 - coeffPattern p = c \<longleftrightarrow> coeffPattern p = m"
    by (auto simp: m(4))
  then have "Decode (fst (EncodeDec32 c e)) = (c, e, True)
      \<longleftrightarrow> coeffPattern p = m \<and> expPattern p = e"
    by (simp add: enc dec)
  also have "\<dots> \<longleftrightarrow> sint e < - 64 \<or> 0 \<le> sint e \<or> 8388608 \<le> sint m"
    using Encode_nonneg_round_trip_iff [OF m(3,2) assms(2,3)] by (simp add: p_def)
  also have "sint m = \<bar>sint c\<bar>"
    using False neg by (simp add: m_def)
  finally show ?thesis
    by (simp add: enc)
qed

theorem EncodeDec32_round_trip_iff_witness:
  "\<bar>sint (- 5 :: int32)\<bar> \<le> 9999999 \<and> - 95 \<le> sint (- 95 :: int8) \<and> sint (- 95 :: int8) \<le> 96 \<and>
   sint (- 95 :: int8) < - 64 \<and>
   snd (EncodeDec32 (- 5) (- 95)) \<and> Decode (fst (EncodeDec32 (- 5) (- 95))) = (- 5, - 95, True)"
proof -
  have h: "\<bar>sint (- 5 :: int32)\<bar> \<le> 9999999" "- 95 \<le> sint (- 95 :: int8)"
          "sint (- 95 :: int8) \<le> 96"
    by simp_all
  show ?thesis
    using EncodeDec32_round_trip_iff [OF h] by simp
qed

section \<open>The range check of EncodeDec32\<close>

text \<open>
  C2. At the coefficient -2147483648 the negation \<^verbatim>\<open>0 - coeff\<close> wraps around to
  -2147483648 again, which is not greater than 9,999,999: EncodeDec32 does not fail
  although the magnitude of the coefficient exceeds 9,999,999. It returns the word
  0x80000000 with success.
\<close>

theorem EncodeDec32_accepts_min_int32:
  "sint (- 2147483648 :: int32) = - 2147483648 \<and>
   maxCoeff < \<bar>sint (- 2147483648 :: int32)\<bar> \<and>
   EncodeDec32 (- 2147483648) 0 = (0x80000000, True) \<and>
   EncodeDec32 (- 2147483648) 0 \<noteq> (failDec32, False)"
  by (simp add: EncodeDec32_def Let_def dec32_consts)

text \<open>
  Away from that input the check is as stated: for every coefficient other than
  -2147483648 and every exponent, EncodeDec32 succeeds exactly when the magnitude of
  the coefficient is at most 9,999,999 and the exponent lies in [-95, 96], and it
  returns the failure word 0xffffffff with the failure flag exactly when one of the two
  is out of range.
\<close>

theorem EncodeDec32_fails_iff_out_of_range:
  assumes "- 2147483648 < sint c"
  shows "(snd (EncodeDec32 c e) \<longleftrightarrow>
            \<bar>sint c\<bar> \<le> maxCoeff \<and> minExp \<le> sint e \<and> sint e \<le> maxExp) \<and>
         (EncodeDec32 c e = (failDec32, False) \<longleftrightarrow>
            maxCoeff < \<bar>sint c\<bar> \<or> sint e < minExp \<or> maxExp < sint e)"
proof -
  have neg: "sint (0 - c) = - sint c"
    using sint_minus_in_range [OF assms] by simp
  show ?thesis
    using neg by (auto simp: EncodeDec32_def Let_def)
qed

theorem EncodeDec32_fails_iff_out_of_range_witness:
  "- 2147483648 < sint (- 10000000 :: int32) \<and>
   \<not> snd (EncodeDec32 (- 10000000) 0) \<and> EncodeDec32 (- 10000000) 0 = (failDec32, False)"
proof -
  have h: "- 2147483648 < sint (- 10000000 :: int32)"
    by simp
  show ?thesis
    using EncodeDec32_fails_iff_out_of_range [OF h, of 0] by (simp add: dec32_consts)
qed

section \<open>Zero\<close>

text \<open>
  C6. The word 0xe40fffff has the sign bit set and the coefficient bit pattern
  10485759, which exceeds 9,999,999. Decode negates the coefficient before Zero
  compares it, so Zero is false of this word; of the same word with the sign bit clear,
  0x640fffff, Zero is true.
\<close>

theorem Zero_false_on_negative_out_of_range:
  "coeffPattern 0xe40fffff = 10485759 \<and>
   maxCoeff < sint (coeffPattern 0xe40fffff) \<and>
   Decode 0xe40fffff = (- 10485759, 0, True) \<and>
   \<not> Zero 0xe40fffff \<and>
   Zero 0x640fffff"
  by (simp add: Zero_def Decode_def coeffPattern_def Let_def dec32_fields dec32_consts)

section \<open>Float32\<close>

text \<open>
  C3. On the word 0x00200001, which decodes to coefficient 1 and exponent 2, Float32
  returns 1 * (10 * 2) = 20 and not 1 * 10^2 = 100, for every rounding that leaves
  the integers of magnitude up to 2^24 unchanged (as the rounding of binary32 does):
  the source multiplies 10.0 by the exponent where it should raise 10 to it.
\<close>

theorem Float32_multiplies_by_ten_times_exponent:
  assumes "\<And>k :: int. \<bar>k\<bar> \<le> 2 ^ 24 \<Longrightarrow> rnd (of_int k) = of_int k"
  shows "Decode 0x00200001 = (1, 2, True) \<and>
         Float32 rnd 0x00200001 = Finite 20 \<and>
         Float32 rnd 0x00200001 \<noteq> Finite (1 * 10 ^ 2)"
proof -
  have d: "Decode 0x00200001 = (1, 2, True)"
    by (simp add: Decode_def Let_def dec32_fields dec32_consts)
  have r: "rnd 1 = 1" "rnd 2 = 2" "rnd 20 = 20"
    using assms [of 1] assms [of 2] assms [of 20] by simp_all
  show ?thesis
    by (simp add: Float32_def d r)
qed

theorem Float32_multiplies_by_ten_times_exponent_witness:
  "Decode 0x00200001 = (1, 2, True) \<and>
   Float32 (\<lambda>x. x) 0x00200001 = Finite 20 \<and>
   Float32 (\<lambda>x. x) 0x00200001 \<noteq> Finite (1 * 10 ^ 2)"
  using Float32_multiplies_by_ten_times_exponent [of "\<lambda>x. x"] by simp

end
